theory Spec2Isabelle
  imports Main
begin

section \<open>Option values\<close>

text \<open>
  Modelled from the spec: the declarations of \<open>Options\<close> and \<open>IncludeEntry\<close> live in
  \<open>./types\<close>, which is not among the sources. The shapes below follow the spec's data
  model and the way \<open>options-mapping.ts\<close> reads the fields: an optional field is an
  \<open>option\<close> (\<open>None\<close> is \<open>undefined\<close>), a union is a datatype with one constructor per
  alternative, and the values that are only passed through (the error handler callback, the
  set-commits policy, the deploy descriptor) are opaque.
\<close>

datatype RegExp = RegExp (source: string) (flags: string)

datatype matcher = MatcherString string | MatcherRegExp RegExp

text \<open>\<open>(string | RegExp) | (string | RegExp)[] | ((filePath: string) => boolean)\<close>\<close>

datatype entries_value =
    EntriesMatcher matcher
  | EntriesArray "matcher list"
  | EntriesFunction "string \<Rightarrow> bool"

text \<open>\<open>string | string[]\<close>\<close>

datatype ignore_value = IgnoreString string | IgnoreArray "string list"

typedecl error_handler
typedecl set_commits
typedecl deploy_descriptor

record IncludeEntry =
  paths :: "string list"
  ignore :: "ignore_value option"
  ignoreFile :: "string option"
  ext :: "string list option"
  urlPrefix :: "string option"
  urlSuffix :: "string option"
  stripPrefix :: "string list option"
  stripCommonPrefix :: "bool option"
  sourceMapReference :: "bool option"
  rewrite :: "bool option"
  validate :: "bool option"

text \<open>\<open>string | IncludeEntry | Array<string | IncludeEntry>\<close>\<close>

datatype include_item = ItemPath string | ItemEntry IncludeEntry

datatype include_value =
    IncludePath string
  | IncludeObject IncludeEntry
  | IncludeArray "include_item list"

text \<open>
  The \<open>include\<close> option is the field \<open>include'\<close>: \<open>include\<close> is a keyword of the theory
  language. It is the one required option, so it is not an \<open>option\<close>.
\<close>

record UserOptions =
  include' :: include_value
  org :: "string option"
  project :: "string option"
  release :: "string option"
  authToken :: "string option"
  customHeader :: "string option"
  url :: "string option"
  vcsRemote :: "string option"
  finalize :: "bool option"
  cleanArtifacts :: "bool option"
  dryRun :: "bool option"
  debug :: "bool option"
  silent :: "bool option"
  telemetry :: "bool option"
  injectReleasesMap :: "bool option"
  setCommits :: "set_commits option"
  deploy :: "deploy_descriptor option"
  entries :: "entries_value option"
  dist :: "string option"
  errorHandler :: "error_handler option"
  configFile :: "string option"
  ignore :: "ignore_value option"
  ignoreFile :: "string option"
  ext :: "string list option"
  urlPrefix :: "string option"
  urlSuffix :: "string option"
  stripPrefix :: "string list option"
  stripCommonPrefix :: "bool option"
  sourceMapReference :: "bool option"
  rewrite :: "bool option"
  validate :: "bool option"

text \<open>
  \<open>InternalIncludeEntry\<close>: the required group, the optional group, and \<open>ignore\<close> as an
  array of strings.
\<close>

record InternalIncludeEntry =
  paths :: "string list"
  ignore :: "string list"
  ignoreFile :: "string option"
  ext :: "string list"
  urlPrefix :: "string option"
  urlSuffix :: "string option"
  stripPrefix :: "string list option"
  stripCommonPrefix :: bool
  sourceMapReference :: bool
  rewrite :: bool
  validate :: bool

text \<open>
  \<open>InternalOptions = RequiredInternalOptions & OptionalInternalOptions &
  NormalizedInternalOptions\<close>: the fields of the required group have a value, those of the
  optional group may be \<open>undefined\<close>.
\<close>

record InternalOptions =
  include' :: "InternalIncludeEntry list"
  org :: "string option"
  project :: "string option"
  release :: string
  authToken :: "string option"
  customHeader :: "string option"
  url :: "string option"
  vcsRemote :: "string option"
  finalize :: bool
  cleanArtifacts :: bool
  dryRun :: bool
  debug :: bool
  silent :: bool
  telemetry :: bool
  injectReleasesMap :: bool
  setCommits :: "set_commits option"
  deploy :: "deploy_descriptor option"
  entries :: "entries_value option"
  dist :: "string option"
  errorHandler :: "error_handler option"
  configFile :: "string option"

text \<open>
  \<open>process.env\<close>: a variable is a string or \<open>undefined\<close>. Strings are lists of characters;
  the only character the code inspects is the dot.
\<close>

type_synonym process_env = "string \<rightharpoonup> string"

section \<open>The nullish coalescing operator\<close>

text \<open>
  \<open>a ?? b\<close> is \<open>a\<close> unless \<open>a\<close> is \<open>undefined\<close>. It associates to the left, so
  \<open>a ?? b ?? c\<close> is \<open>(a ?? b) ?? c\<close>; \<open>nullish\<close> is the operator when the right operand may
  be \<open>undefined\<close> itself, \<open>nullish_default\<close> when it is a value.
\<close>

definition nullish :: "'a option \<Rightarrow> 'a option \<Rightarrow> 'a option" where
  "nullish a b = (case a of Some v \<Rightarrow> Some v | None \<Rightarrow> b)"

definition nullish_default :: "'a option \<Rightarrow> 'a \<Rightarrow> 'a" where
  "nullish_default a d = (case a of Some v \<Rightarrow> v | None \<Rightarrow> d)"

section \<open>options-mapping.ts\<close>

text \<open>\<open>normalizeEntries\<close>, lines 104 to 114.\<close>

fun normalizeEntries :: "entries_value option \<Rightarrow> entries_value option" where
  "normalizeEntries None = None"
| "normalizeEntries (Some (EntriesFunction f)) = Some (EntriesFunction f)"
| "normalizeEntries (Some (EntriesArray ms)) = Some (EntriesArray ms)"
| "normalizeEntries (Some (EntriesMatcher m)) = Some (EntriesArray [m])"

text \<open>\<open>convertIncludePathToIncludeEntry\<close>, lines 153 to 157: only \<open>paths\<close> is set.\<close>

definition convertIncludePathToIncludeEntry :: "string \<Rightarrow> IncludeEntry" where
  "convertIncludePathToIncludeEntry includePath =
     \<lparr> IncludeEntry.paths = [includePath], ignore = None, ignoreFile = None, ext = None,
       urlPrefix = None, urlSuffix = None, stripPrefix = None, stripCommonPrefix = None,
       sourceMapReference = None, rewrite = None, validate = None \<rparr>"

text \<open>
  \<open>extension.replace(/^\./, "")\<close>: the pattern is anchored at the start of the string and
  has no global flag, so it removes the first character when that is a dot and nothing else.
\<close>

fun replace_leading_dot :: "string \<Rightarrow> string" where
  "replace_leading_dot [] = []"
| "replace_leading_dot (c # s) = (if c = CHR ''.'' then s else c # s)"

text \<open>The template literal of line 172.\<close>

definition dotPrefix :: "string \<Rightarrow> string" where
  "dotPrefix extension = CHR ''.'' # replace_leading_dot extension"

text \<open>\<open>normalizeIncludeEntry\<close>, lines 163 to 187.\<close>

definition normalizeIncludeEntry :: "UserOptions \<Rightarrow> IncludeEntry \<Rightarrow> InternalIncludeEntry" where
  "normalizeIncludeEntry userOptions includeEntry =
     (let ignoreOption =
            nullish_default (nullish (IncludeEntry.ignore includeEntry) (UserOptions.ignore userOptions))
              (IgnoreArray [''node_modules'']);
          ignore' = (case ignoreOption of IgnoreArray xs \<Rightarrow> xs | IgnoreString s \<Rightarrow> [s]);
          ext' =
            nullish_default (nullish (IncludeEntry.ext includeEntry) (UserOptions.ext userOptions))
              [''js'', ''map'', ''jsbundle'', ''bundle''];
          dotPrefixedExt = map dotPrefix ext'
      in \<lparr> InternalIncludeEntry.paths = IncludeEntry.paths includeEntry,
           ignore = ignore',
           ignoreFile = nullish (IncludeEntry.ignoreFile includeEntry) (UserOptions.ignoreFile userOptions),
           ext = dotPrefixedExt,
           urlPrefix = nullish (IncludeEntry.urlPrefix includeEntry) (UserOptions.urlPrefix userOptions),
           urlSuffix = nullish (IncludeEntry.urlSuffix includeEntry) (UserOptions.urlSuffix userOptions),
           stripPrefix = nullish (IncludeEntry.stripPrefix includeEntry) (UserOptions.stripPrefix userOptions),
           stripCommonPrefix =
             nullish_default
               (nullish (IncludeEntry.stripCommonPrefix includeEntry) (UserOptions.stripCommonPrefix userOptions))
               False,
           sourceMapReference =
             nullish_default
               (nullish (IncludeEntry.sourceMapReference includeEntry) (UserOptions.sourceMapReference userOptions))
               True,
           rewrite =
             nullish_default (nullish (IncludeEntry.rewrite includeEntry) (UserOptions.rewrite userOptions)) True,
           validate =
             nullish_default (nullish (IncludeEntry.validate includeEntry) (UserOptions.validate userOptions))
               False \<rparr>)"

text \<open>
  The first half of \<open>normalizeInclude\<close>, lines 131 to 146: the local \<open>userInclude\<close>.
\<close>

fun userInclude :: "include_value \<Rightarrow> IncludeEntry list" where
  "userInclude (IncludePath rawUserInclude) = [convertIncludePathToIncludeEntry rawUserInclude]"
| "userInclude (IncludeArray rawUserInclude) =
     map (\<lambda>potentialIncludeEntry.
            case potentialIncludeEntry of
              ItemPath p \<Rightarrow> convertIncludePathToIncludeEntry p
            | ItemEntry e \<Rightarrow> e)
         rawUserInclude"
| "userInclude (IncludeObject rawUserInclude) = [rawUserInclude]"

text \<open>\<open>normalizeInclude\<close>, lines 130 to 151.\<close>

definition normalizeInclude :: "UserOptions \<Rightarrow> InternalIncludeEntry list" where
  "normalizeInclude userOptions =
     map (\<lambda>userIncludeEntry. normalizeIncludeEntry userOptions userIncludeEntry)
         (userInclude (UserOptions.include' userOptions))"

text \<open>
  \<open>normalizeUserOptions\<close>, lines 59 to 99. The environment is read through \<open>process.env\<close>,
  here the first argument.
\<close>

definition normalizeUserOptions :: "process_env \<Rightarrow> UserOptions \<Rightarrow> InternalOptions" where
  "normalizeUserOptions env userOptions =
     \<lparr> InternalOptions.include' = normalizeInclude userOptions,
       org = nullish (UserOptions.org userOptions) (env ''SENTRY_ORG''),
       project = nullish (UserOptions.project userOptions) (env ''SENTRY_PROJECT''),
       release = nullish_default (nullish (UserOptions.release userOptions) (env ''SENTRY_RELEASE'')) '''',
       authToken = nullish (UserOptions.authToken userOptions) (env ''SENTRY_AUTH_TOKEN''),
       customHeader = nullish (UserOptions.customHeader userOptions) (env ''CUSTOM_HEADER''),
       url = Some (nullish_default (nullish (UserOptions.url userOptions) (env ''SENTRY_URL''))
                     ''https://sentry.io/''),
       vcsRemote = Some (nullish_default (nullish (UserOptions.vcsRemote userOptions) (env ''SENTRY_VCS_REMOTE''))
                           ''origin''),
       finalize = nullish_default (UserOptions.finalize userOptions) True,
       cleanArtifacts = nullish_default (UserOptions.cleanArtifacts userOptions) False,
       dryRun = nullish_default (UserOptions.dryRun userOptions) False,
       debug = nullish_default (UserOptions.debug userOptions) False,
       silent = nullish_default (UserOptions.silent userOptions) False,
       telemetry = nullish_default (UserOptions.telemetry userOptions) True,
       injectReleasesMap = nullish_default (UserOptions.injectReleasesMap userOptions) False,
       setCommits = UserOptions.setCommits userOptions,
       deploy = UserOptions.deploy userOptions,
       entries = normalizeEntries (UserOptions.entries userOptions),
       dist = UserOptions.dist userOptions,
       errorHandler = UserOptions.errorHandler userOptions,
       configFile = UserOptions.configFile userOptions \<rparr>"

section \<open>Predicates and sample inputs\<close>

text \<open>The string begins with a dot.\<close>

fun starts_with_dot :: "string \<Rightarrow> bool" where
  "starts_with_dot [] = False"
| "starts_with_dot (c # s) = (c = CHR ''.'')"

text \<open>The string begins with a dot, and no second dot follows it.\<close>

definition exactly_one_leading_dot :: "string \<Rightarrow> bool" where
  "exactly_one_leading_dot s = (starts_with_dot s \<and> \<not> starts_with_dot (tl s))"

text \<open>The options object that sets \<open>include\<close> and nothing else.\<close>

definition optionsWithInclude :: "include_value \<Rightarrow> UserOptions" where
  "optionsWithInclude inc =
     \<lparr> UserOptions.include' = inc, org = None, project = None, release = None, authToken = None,
       customHeader = None, url = None, vcsRemote = None, finalize = None, cleanArtifacts = None,
       dryRun = None, debug = None, silent = None, telemetry = None, injectReleasesMap = None,
       setCommits = None, deploy = None, entries = None, dist = None, errorHandler = None,
       configFile = None, ignore = None, ignoreFile = None, ext = None, urlPrefix = None,
       urlSuffix = None, stripPrefix = None, stripCommonPrefix = None, sourceMapReference = None,
       rewrite = None, validate = None \<rparr>"

text \<open>
  \<open>{ include: ["a.js", { paths: ["b.js"], validate: true }], urlPrefix: "~/" }\<close>
\<close>

definition example_options :: UserOptions where
  "example_options =
     (optionsWithInclude
        (IncludeArray
           [ItemPath ''a.js'',
            ItemEntry ((convertIncludePathToIncludeEntry ''b.js'')\<lparr>IncludeEntry.validate := Some True\<rparr>)]))
     \<lparr>UserOptions.urlPrefix := Some ''~/''\<rparr>"

text \<open>\<open>{ include: "dist", ext: ["..js"] }\<close>\<close>

definition dotted_options :: UserOptions where
  "dotted_options = (optionsWithInclude (IncludePath ''dist''))\<lparr>UserOptions.ext := Some [''..js'']\<rparr>"

text \<open>\<open>{ paths: ["dist"], ext: [".js", ".map", "..ts", "."] }\<close>\<close>

definition dotted_entry :: IncludeEntry where
  "dotted_entry =
     (convertIncludePathToIncludeEntry ''dist'')\<lparr>IncludeEntry.ext := Some [''.js'', ''.map'', ''..ts'', ''.'']\<rparr>"

text \<open>\<open>{ paths: ["dist"], ignore: [], ext: [] }\<close>\<close>

definition empty_lists_entry :: IncludeEntry where
  "empty_lists_entry =
     (convertIncludePathToIncludeEntry ''dist'')
       \<lparr>IncludeEntry.ignore := Some (IgnoreArray []), IncludeEntry.ext := Some []\<rparr>"

section \<open>The fields of a normalized include entry\<close>

lemmas ex_defs = example_options_def optionsWithInclude_def convertIncludePathToIncludeEntry_def
  normalizeInclude_def normalizeIncludeEntry_def nullish_def nullish_default_def Let_def dotPrefix_def
  dotted_options_def dotted_entry_def empty_lists_entry_def exactly_one_leading_dot_def

lemma entry_paths: "InternalIncludeEntry.paths (normalizeIncludeEntry uo e) = IncludeEntry.paths e"
  by (simp add: normalizeIncludeEntry_def Let_def)

lemma entry_ignore:
  "InternalIncludeEntry.ignore (normalizeIncludeEntry uo e) =
     (case IncludeEntry.ignore e of
        Some (IgnoreArray xs) \<Rightarrow> xs
      | Some (IgnoreString s) \<Rightarrow> [s]
      | None \<Rightarrow>
          (case UserOptions.ignore uo of
             Some (IgnoreArray xs) \<Rightarrow> xs
           | Some (IgnoreString s) \<Rightarrow> [s]
           | None \<Rightarrow> [''node_modules'']))"
  by (simp add: normalizeIncludeEntry_def Let_def nullish_def nullish_default_def
      split: option.splits ignore_value.splits)

lemma entry_ext:
  "InternalIncludeEntry.ext (normalizeIncludeEntry uo e) =
     map dotPrefix
       (case IncludeEntry.ext e of
          Some xs \<Rightarrow> xs
        | None \<Rightarrow>
            (case UserOptions.ext uo of
               Some xs \<Rightarrow> xs
             | None \<Rightarrow> [''js'', ''map'', ''jsbundle'', ''bundle'']))"
  by (simp add: normalizeIncludeEntry_def Let_def nullish_def nullish_default_def
      split: option.splits)

lemma entry_optional:
  "InternalIncludeEntry.ignoreFile (normalizeIncludeEntry uo e) =
     (case IncludeEntry.ignoreFile e of Some v \<Rightarrow> Some v | None \<Rightarrow> UserOptions.ignoreFile uo)"
  "InternalIncludeEntry.urlPrefix (normalizeIncludeEntry uo e) =
     (case IncludeEntry.urlPrefix e of Some v \<Rightarrow> Some v | None \<Rightarrow> UserOptions.urlPrefix uo)"
  "InternalIncludeEntry.urlSuffix (normalizeIncludeEntry uo e) =
     (case IncludeEntry.urlSuffix e of Some v \<Rightarrow> Some v | None \<Rightarrow> UserOptions.urlSuffix uo)"
  "InternalIncludeEntry.stripPrefix (normalizeIncludeEntry uo e) =
     (case IncludeEntry.stripPrefix e of Some v \<Rightarrow> Some v | None \<Rightarrow> UserOptions.stripPrefix uo)"
  by (simp_all add: normalizeIncludeEntry_def Let_def nullish_def)

lemma entry_flags:
  "InternalIncludeEntry.stripCommonPrefix (normalizeIncludeEntry uo e) =
     (case IncludeEntry.stripCommonPrefix e of
        Some v \<Rightarrow> v
      | None \<Rightarrow> (case UserOptions.stripCommonPrefix uo of Some v \<Rightarrow> v | None \<Rightarrow> False))"
  "InternalIncludeEntry.sourceMapReference (normalizeIncludeEntry uo e) =
     (case IncludeEntry.sourceMapReference e of
        Some v \<Rightarrow> v
      | None \<Rightarrow> (case UserOptions.sourceMapReference uo of Some v \<Rightarrow> v | None \<Rightarrow> True))"
  "InternalIncludeEntry.rewrite (normalizeIncludeEntry uo e) =
     (case IncludeEntry.rewrite e of
        Some v \<Rightarrow> v
      | None \<Rightarrow> (case UserOptions.rewrite uo of Some v \<Rightarrow> v | None \<Rightarrow> True))"
  "InternalIncludeEntry.validate (normalizeIncludeEntry uo e) =
     (case IncludeEntry.validate e of
        Some v \<Rightarrow> v
      | None \<Rightarrow> (case UserOptions.validate uo of Some v \<Rightarrow> v | None \<Rightarrow> False))"
  by (simp_all add: normalizeIncludeEntry_def Let_def nullish_def nullish_default_def
      split: option.splits)

lemma length_normalizeInclude:
  "length (normalizeInclude uo) = length (userInclude (UserOptions.include' uo))"
  by (simp add: normalizeInclude_def)

lemma nth_normalizeInclude:
  "i < length (normalizeInclude uo) \<Longrightarrow>
   normalizeInclude uo ! i = normalizeIncludeEntry uo (userInclude (UserOptions.include' uo) ! i)"
  by (simp add: normalizeInclude_def)

lemma dotPrefix_starts: "starts_with_dot (dotPrefix x)"
  by (simp add: dotPrefix_def)

lemma dotPrefix_exactly_one:
  "exactly_one_leading_dot (dotPrefix x) = (\<not> (starts_with_dot x \<and> starts_with_dot (tl x)))"
  by (cases x) (auto simp: dotPrefix_def exactly_one_leading_dot_def)

lemma dotPrefix_fixed: "starts_with_dot x \<Longrightarrow> dotPrefix x = x"
  by (cases x) (auto simp: dotPrefix_def)

section \<open>Include entries\<close>

text \<open>
  C1. Every entry of the normalized include comes from the user entry at the same position,
  and each of its optional fields is the entry's own value if it has one, otherwise the
  top-level value of the user options, otherwise the hardcoded default: \<open>["node_modules"]\<close>
  for \<open>ignore\<close>, \<open>["js", "map", "jsbundle", "bundle"]\<close> for \<open>ext\<close>, false for
  \<open>stripCommonPrefix\<close>, true for \<open>sourceMapReference\<close> and \<open>rewrite\<close>, false for \<open>validate\<close>.
  The resolved \<open>ignore\<close> is wrapped in an array when it is a bare string and the resolved
  \<open>ext\<close> is dot-prefixed string by string. \<open>ignoreFile\<close>, \<open>urlPrefix\<close>, \<open>urlSuffix\<close> and
  \<open>stripPrefix\<close> have no default: they are unset when neither the entry nor the top level
  sets them.
\<close>

theorem include_entry_resolution:
  assumes "i < length (normalizeInclude userOptions)"
  shows "let includeEntry = userInclude (UserOptions.include' userOptions) ! i;
             r = normalizeInclude userOptions ! i
         in InternalIncludeEntry.ignore r =
              (case IncludeEntry.ignore includeEntry of
                 Some (IgnoreArray xs) \<Rightarrow> xs
               | Some (IgnoreString s) \<Rightarrow> [s]
               | None \<Rightarrow>
                   (case UserOptions.ignore userOptions of
                      Some (IgnoreArray xs) \<Rightarrow> xs
                    | Some (IgnoreString s) \<Rightarrow> [s]
                    | None \<Rightarrow> [''node_modules'']))
          \<and> InternalIncludeEntry.ext r =
              map dotPrefix
                (case IncludeEntry.ext includeEntry of
                   Some xs \<Rightarrow> xs
                 | None \<Rightarrow>
                     (case UserOptions.ext userOptions of
                        Some xs \<Rightarrow> xs
                      | None \<Rightarrow> [''js'', ''map'', ''jsbundle'', ''bundle'']))
          \<and> InternalIncludeEntry.stripCommonPrefix r =
              (case IncludeEntry.stripCommonPrefix includeEntry of
                 Some v \<Rightarrow> v
               | None \<Rightarrow> (case UserOptions.stripCommonPrefix userOptions of Some v \<Rightarrow> v | None \<Rightarrow> False))
          \<and> InternalIncludeEntry.sourceMapReference r =
              (case IncludeEntry.sourceMapReference includeEntry of
                 Some v \<Rightarrow> v
               | None \<Rightarrow> (case UserOptions.sourceMapReference userOptions of Some v \<Rightarrow> v | None \<Rightarrow> True))
          \<and> InternalIncludeEntry.rewrite r =
              (case IncludeEntry.rewrite includeEntry of
                 Some v \<Rightarrow> v
               | None \<Rightarrow> (case UserOptions.rewrite userOptions of Some v \<Rightarrow> v | None \<Rightarrow> True))
          \<and> InternalIncludeEntry.validate r =
              (case IncludeEntry.validate includeEntry of
                 Some v \<Rightarrow> v
               | None \<Rightarrow> (case UserOptions.validate userOptions of Some v \<Rightarrow> v | None \<Rightarrow> False))
          \<and> InternalIncludeEntry.ignoreFile r =
              (case IncludeEntry.ignoreFile includeEntry of
                 Some v \<Rightarrow> Some v
               | None \<Rightarrow> UserOptions.ignoreFile userOptions)
          \<and> InternalIncludeEntry.urlPrefix r =
              (case IncludeEntry.urlPrefix includeEntry of
                 Some v \<Rightarrow> Some v
               | None \<Rightarrow> UserOptions.urlPrefix userOptions)
          \<and> InternalIncludeEntry.urlSuffix r =
              (case IncludeEntry.urlSuffix includeEntry of
                 Some v \<Rightarrow> Some v
               | None \<Rightarrow> UserOptions.urlSuffix userOptions)
          \<and> InternalIncludeEntry.stripPrefix r =
              (case IncludeEntry.stripPrefix includeEntry of
                 Some v \<Rightarrow> Some v
               | None \<Rightarrow> UserOptions.stripPrefix userOptions)"
proof -
  have r: "normalizeInclude userOptions ! i =
      normalizeIncludeEntry userOptions (userInclude (UserOptions.include' userOptions) ! i)"
    using assms by (rule nth_normalizeInclude)
  show ?thesis
    unfolding Let_def r
    by (intro conjI entry_ignore entry_ext entry_flags entry_optional)
qed

theorem include_entry_resolution_witness:
  "1 < length (normalizeInclude example_options)
   \<and> InternalIncludeEntry.ignore (normalizeInclude example_options ! 1) = [''node_modules'']
   \<and> InternalIncludeEntry.ext (normalizeInclude example_options ! 1) = [''.js'', ''.map'', ''.jsbundle'', ''.bundle'']
   \<and> InternalIncludeEntry.validate (normalizeInclude example_options ! 1) = True
   \<and> InternalIncludeEntry.rewrite (normalizeInclude example_options ! 1) = True
   \<and> InternalIncludeEntry.urlPrefix (normalizeInclude example_options ! 1) = Some ''~/''
   \<and> InternalIncludeEntry.urlSuffix (normalizeInclude example_options ! 1) = None"
proof -
  have len: "1 < length (normalizeInclude example_options)"
    by (simp add: ex_defs)
  show ?thesis
    using len include_entry_resolution [OF len]
    by (simp add: ex_defs)
qed

text \<open>
  With \<open>include: "dist"\<close> and \<open>ext: ["..js"]\<close> the normalized entry has the extension
  \<open>"..js"\<close>, which begins with two dots.
\<close>

theorem ext_single_dot_counterexample:
  "map InternalIncludeEntry.ext (normalizeInclude dotted_options) = [[''..js'']]
   \<and> \<not> exactly_one_leading_dot ''..js''"
  by (simp add: ex_defs)

text \<open>
  C2, amended. Every string of the \<open>ext\<close> of a normalized entry begins with a dot. It
  begins with exactly one dot unless the resolved extension it is made from begins with two
  dots or more; such an extension is returned as it is.
\<close>

theorem ext_leading_dot:
  assumes "i < length (normalizeInclude userOptions)"
    and "j < length (InternalIncludeEntry.ext (normalizeInclude userOptions ! i))"
  shows "let includeEntry = userInclude (UserOptions.include' userOptions) ! i;
             ext' = (case IncludeEntry.ext includeEntry of
                       Some xs \<Rightarrow> xs
                     | None \<Rightarrow>
                         (case UserOptions.ext userOptions of
                            Some xs \<Rightarrow> xs
                          | None \<Rightarrow> [''js'', ''map'', ''jsbundle'', ''bundle'']));
             extension = ext' ! j;
             dotPrefixed = InternalIncludeEntry.ext (normalizeInclude userOptions ! i) ! j
         in starts_with_dot dotPrefixed
          \<and> (if starts_with_dot extension \<and> starts_with_dot (tl extension)
              then dotPrefixed = extension
              else exactly_one_leading_dot dotPrefixed)"
proof -
  let ?e = "userInclude (UserOptions.include' userOptions) ! i"
  let ?ext = "case IncludeEntry.ext ?e of
                Some xs \<Rightarrow> xs
              | None \<Rightarrow>
                  (case UserOptions.ext userOptions of
                     Some xs \<Rightarrow> xs
                   | None \<Rightarrow> [''js'', ''map'', ''jsbundle'', ''bundle''])"
  have r: "InternalIncludeEntry.ext (normalizeInclude userOptions ! i) = map dotPrefix ?ext"
    using assms(1) by (simp add: nth_normalizeInclude entry_ext)
  have j: "j < length ?ext"
    using assms(2) unfolding r by simp
  have nth: "InternalIncludeEntry.ext (normalizeInclude userOptions ! i) ! j = dotPrefix (?ext ! j)"
    unfolding r using j by simp
  show ?thesis
    unfolding Let_def nth
    by (simp add: dotPrefix_starts dotPrefix_exactly_one dotPrefix_fixed)
qed

theorem ext_leading_dot_witness:
  "0 < length (normalizeInclude dotted_options)
   \<and> 0 < length (InternalIncludeEntry.ext (normalizeInclude dotted_options ! 0))
   \<and> starts_with_dot (InternalIncludeEntry.ext (normalizeInclude dotted_options ! 0) ! 0)
   \<and> InternalIncludeEntry.ext (normalizeInclude dotted_options ! 0) ! 0 = ''..js''
   \<and> 1 < length (normalizeInclude example_options)
   \<and> 2 < length (InternalIncludeEntry.ext (normalizeInclude example_options ! 1))
   \<and> exactly_one_leading_dot (InternalIncludeEntry.ext (normalizeInclude example_options ! 1) ! 2)"
proof -
  have a: "0 < length (normalizeInclude dotted_options)"
    and b: "0 < length (InternalIncludeEntry.ext (normalizeInclude dotted_options ! 0))"
    and c: "1 < length (normalizeInclude example_options)"
    and d: "2 < length (InternalIncludeEntry.ext (normalizeInclude example_options ! 1))"
    by (simp_all add: ex_defs)
  show ?thesis
    using a b c d ext_leading_dot [OF a b] ext_leading_dot [OF c d]
    by (simp add: ex_defs)
qed

text \<open>With \<open>include: []\<close> the normalized include is the empty sequence.\<close>

theorem include_empty_array_counterexample:
  "UserOptions.include' (optionsWithInclude (IncludeArray [])) = IncludeArray []
   \<and> normalizeInclude (optionsWithInclude (IncludeArray [])) = []"
  by (simp add: ex_defs)

text \<open>
  C3, amended. When \<open>include\<close> is a path string, a single entry object or a sequence with
  at least one element, the normalized include has at least one entry.
\<close>

theorem include_nonempty:
  assumes "UserOptions.include' userOptions \<noteq> IncludeArray []"
  shows "normalizeInclude userOptions \<noteq> []"
  using assms by (cases "UserOptions.include' userOptions") (simp_all add: normalizeInclude_def)

theorem include_nonempty_witness:
  "UserOptions.include' example_options \<noteq> IncludeArray []
   \<and> UserOptions.include' dotted_options \<noteq> IncludeArray []
   \<and> normalizeInclude example_options \<noteq> []
   \<and> length (normalizeInclude dotted_options) = 1"
proof -
  have a: "UserOptions.include' example_options \<noteq> IncludeArray []"
    and b: "UserOptions.include' dotted_options \<noteq> IncludeArray []"
    by (simp_all add: ex_defs)
  show ?thesis
    using a b include_nonempty [OF a] include_nonempty [OF b]
    by (simp add: ex_defs)
qed

text \<open>
  C5. An entry that sets \<open>ignore\<close> to the empty sequence keeps an empty \<open>ignore\<close>, and an
  entry that sets \<open>ext\<close> to the empty sequence keeps an empty \<open>ext\<close>, whatever the top-level
  options say: neither the top-level value nor the default is used.
\<close>

theorem explicit_empty_sequence_kept:
  "(IncludeEntry.ignore includeEntry = Some (IgnoreArray []) \<longrightarrow>
      InternalIncludeEntry.ignore (normalizeIncludeEntry userOptions includeEntry) = [])
   \<and> (IncludeEntry.ext includeEntry = Some [] \<longrightarrow>
      InternalIncludeEntry.ext (normalizeIncludeEntry userOptions includeEntry) = [])"
  by (simp add: entry_ignore entry_ext)

theorem explicit_empty_sequence_kept_witness:
  "IncludeEntry.ignore empty_lists_entry = Some (IgnoreArray [])
   \<and> IncludeEntry.ext empty_lists_entry = Some []
   \<and> InternalIncludeEntry.ignore (normalizeIncludeEntry example_options empty_lists_entry) = []
   \<and> InternalIncludeEntry.ext (normalizeIncludeEntry example_options empty_lists_entry) = []
   \<and> InternalIncludeEntry.ignore
        (normalizeIncludeEntry example_options (convertIncludePathToIncludeEntry ''dist'')) \<noteq> []
   \<and> InternalIncludeEntry.ext
        (normalizeIncludeEntry example_options (convertIncludePathToIncludeEntry ''dist'')) \<noteq> []"
  using explicit_empty_sequence_kept [of empty_lists_entry example_options]
  by (simp add: ex_defs)

text \<open>
  C6. When every string of an entry's own \<open>ext\<close> begins with a dot, the normalized entry
  has the same \<open>ext\<close>: the same strings in the same order.
\<close>

theorem ext_dot_prefixed_unchanged:
  assumes "IncludeEntry.ext includeEntry = Some exts"
    and "\<forall>extension \<in> set exts. starts_with_dot extension"
  shows "InternalIncludeEntry.ext (normalizeIncludeEntry userOptions includeEntry) = exts"
proof -
  have "map dotPrefix exts = exts"
    using assms(2) by (simp add: map_idI dotPrefix_fixed)
  then show ?thesis
    using assms(1) by (simp add: entry_ext)
qed

theorem ext_dot_prefixed_unchanged_witness:
  "IncludeEntry.ext dotted_entry = Some [''.js'', ''.map'', ''..ts'', ''.'']
   \<and> starts_with_dot ''.js'' \<and> starts_with_dot ''.map''
   \<and> starts_with_dot ''..ts'' \<and> starts_with_dot ''.''
   \<and> InternalIncludeEntry.ext (normalizeIncludeEntry example_options dotted_entry)
       = [''.js'', ''.map'', ''..ts'', ''.'']"
proof -
  have a: "IncludeEntry.ext dotted_entry = Some [''.js'', ''.map'', ''..ts'', ''.'']"
    by (simp add: ex_defs)
  have b: "\<forall>extension \<in> set [''.js'', ''.map'', ''..ts'', ''.'']. starts_with_dot extension"
    by simp
  show ?thesis
    using a b ext_dot_prefixed_unchanged [OF a b, of example_options] by simp
qed

text \<open>
  C9. When \<open>include\<close> is a sequence, the normalized include has the length of that
  sequence and its entry at each position is the normalization of the element at that
  position, a path string first being turned into the entry with that one path. The empty
  sequence gives the empty sequence.
\<close>

theorem include_array_pointwise:
  assumes "UserOptions.include' userOptions = IncludeArray items"
  shows "length (normalizeInclude userOptions) = length items
    \<and> (\<forall>i < length items.
          normalizeInclude userOptions ! i =
            normalizeIncludeEntry userOptions
              (case items ! i of
                 ItemPath p \<Rightarrow> convertIncludePathToIncludeEntry p
               | ItemEntry e \<Rightarrow> e)
          \<and> InternalIncludeEntry.paths (normalizeInclude userOptions ! i) =
              (case items ! i of ItemPath p \<Rightarrow> [p] | ItemEntry e \<Rightarrow> IncludeEntry.paths e))
    \<and> normalizeInclude (userOptions\<lparr>UserOptions.include' := IncludeArray []\<rparr>) = []"
  using assms
  by (auto simp: normalizeInclude_def entry_paths convertIncludePathToIncludeEntry_def
      split: include_item.splits)

theorem include_array_pointwise_witness:
  "UserOptions.include' example_options =
     IncludeArray
       [ItemPath ''a.js'',
        ItemEntry ((convertIncludePathToIncludeEntry ''b.js'')\<lparr>IncludeEntry.validate := Some True\<rparr>)]
   \<and> length (normalizeInclude example_options) = 2
   \<and> InternalIncludeEntry.paths (normalizeInclude example_options ! 0) = [''a.js'']
   \<and> InternalIncludeEntry.paths (normalizeInclude example_options ! 1) = [''b.js'']
   \<and> InternalIncludeEntry.validate (normalizeInclude example_options ! 0) = False
   \<and> InternalIncludeEntry.validate (normalizeInclude example_options ! 1) = True"
proof -
  have a: "UserOptions.include' example_options =
     IncludeArray
       [ItemPath ''a.js'',
        ItemEntry ((convertIncludePathToIncludeEntry ''b.js'')\<lparr>IncludeEntry.validate := Some True\<rparr>)]"
    by (simp add: example_options_def optionsWithInclude_def)
  show ?thesis
    using a include_array_pointwise [OF a]
    by (simp add: ex_defs)
qed

text \<open>
  C10. The coercion of an extension is a dot prepended to the extension less one leading
  dot, if it has one: at most one dot is removed, and one dot is always prepended. This is
  what every string of the \<open>ext\<close> of a normalized entry is made of, whether the extensions
  are the entry's own, the top-level ones or the default ones. So an extension that begins
  with two dots is returned as it is (\<open>"..js"\<close> stays \<open>"..js"\<close>), the empty extension becomes
  \<open>"."\<close>, and \<open>"ts"\<close> and \<open>".ts"\<close> both become \<open>".ts"\<close>.
\<close>

theorem dotPrefix_strips_one_dot:
  "replace_leading_dot extension = (if starts_with_dot extension then tl extension else extension)
   \<and> dotPrefix extension =
       CHR ''.'' # (if starts_with_dot extension then tl extension else extension)
   \<and> InternalIncludeEntry.ext (normalizeIncludeEntry userOptions includeEntry) =
       map (\<lambda>extension. CHR ''.'' # (if starts_with_dot extension then tl extension else extension))
         (case IncludeEntry.ext includeEntry of
            Some xs \<Rightarrow> xs
          | None \<Rightarrow>
              (case UserOptions.ext userOptions of
                 Some xs \<Rightarrow> xs
               | None \<Rightarrow> [''js'', ''map'', ''jsbundle'', ''bundle'']))
   \<and> dotPrefix (CHR ''.'' # CHR ''.'' # s) = CHR ''.'' # CHR ''.'' # s
   \<and> dotPrefix ''..js'' = ''..js''
   \<and> dotPrefix '''' = ''.''
   \<and> dotPrefix ''ts'' = ''.ts''
   \<and> dotPrefix ''.ts'' = ''.ts''
   \<and> InternalIncludeEntry.ext
       (normalizeIncludeEntry userOptions
          (includeEntry\<lparr>IncludeEntry.ext := Some [CHR ''.'' # CHR ''.'' # s, '''', ''ts'', ''.ts'']\<rparr>))
     = [CHR ''.'' # CHR ''.'' # s, ''.'', ''.ts'', ''.ts'']"
proof -
  have strip: "replace_leading_dot x = (if starts_with_dot x then tl x else x)" for x
    by (cases x) simp_all
  have coerce: "dotPrefix = (\<lambda>x. CHR ''.'' # (if starts_with_dot x then tl x else x))"
    by (rule ext) (simp add: dotPrefix_def strip)
  have entry: "InternalIncludeEntry.ext (normalizeIncludeEntry userOptions includeEntry) =
       map (\<lambda>x. CHR ''.'' # (if starts_with_dot x then tl x else x))
         (case IncludeEntry.ext includeEntry of
            Some xs \<Rightarrow> xs
          | None \<Rightarrow>
              (case UserOptions.ext userOptions of
                 Some xs \<Rightarrow> xs
               | None \<Rightarrow> [''js'', ''map'', ''jsbundle'', ''bundle'']))"
    unfolding entry_ext coerce ..
  have fixed: "InternalIncludeEntry.ext
       (normalizeIncludeEntry userOptions
          (includeEntry\<lparr>IncludeEntry.ext := Some [CHR ''.'' # CHR ''.'' # s, '''', ''ts'', ''.ts'']\<rparr>))
     = [CHR ''.'' # CHR ''.'' # s, ''.'', ''.ts'', ''.ts'']"
    by (simp add: entry_ext dotPrefix_def)
  show ?thesis
    using strip [of extension] entry fixed
    by (simp add: dotPrefix_def)
qed

section \<open>Scalar options\<close>

text \<open>
  C7. The \<open>release\<close> of the normalized options is the user's \<open>release\<close> if set, otherwise
  the environment variable \<open>SENTRY_RELEASE\<close> if set, otherwise the empty string. With
  neither set it is \<open>""\<close>; with only the variable set it is the variable's value.
\<close>

theorem release_resolution:
  "InternalOptions.release (normalizeUserOptions env userOptions) =
     (case UserOptions.release userOptions of
        Some r \<Rightarrow> r
      | None \<Rightarrow> (case env ''SENTRY_RELEASE'' of Some r \<Rightarrow> r | None \<Rightarrow> ''''))
   \<and> InternalOptions.release
       (normalizeUserOptions (env(''SENTRY_RELEASE'' := None)) (userOptions\<lparr>UserOptions.release := None\<rparr>))
     = ''''
   \<and> InternalOptions.release
       (normalizeUserOptions (env(''SENTRY_RELEASE'' \<mapsto> r)) (userOptions\<lparr>UserOptions.release := None\<rparr>))
     = r"
  by (simp add: normalizeUserOptions_def nullish_def nullish_default_def split: option.splits)

text \<open>
  C8. Each boolean option of the normalized options is the user's value if set; when it is
  omitted, \<open>finalize\<close> and \<open>telemetry\<close> are true and \<open>cleanArtifacts\<close>, \<open>dryRun\<close>, \<open>debug\<close>,
  \<open>silent\<close> and \<open>injectReleasesMap\<close> are false.
\<close>

theorem boolean_defaults:
  "InternalOptions.finalize (normalizeUserOptions env userOptions) =
     (case UserOptions.finalize userOptions of Some b \<Rightarrow> b | None \<Rightarrow> True)
   \<and> InternalOptions.telemetry (normalizeUserOptions env userOptions) =
     (case UserOptions.telemetry userOptions of Some b \<Rightarrow> b | None \<Rightarrow> True)
   \<and> InternalOptions.cleanArtifacts (normalizeUserOptions env userOptions) =
     (case UserOptions.cleanArtifacts userOptions of Some b \<Rightarrow> b | None \<Rightarrow> False)
   \<and> InternalOptions.dryRun (normalizeUserOptions env userOptions) =
     (case UserOptions.dryRun userOptions of Some b \<Rightarrow> b | None \<Rightarrow> False)
   \<and> InternalOptions.debug (normalizeUserOptions env userOptions) =
     (case UserOptions.debug userOptions of Some b \<Rightarrow> b | None \<Rightarrow> False)
   \<and> InternalOptions.silent (normalizeUserOptions env userOptions) =
     (case UserOptions.silent userOptions of Some b \<Rightarrow> b | None \<Rightarrow> False)
   \<and> InternalOptions.injectReleasesMap (normalizeUserOptions env userOptions) =
     (case UserOptions.injectReleasesMap userOptions of Some b \<Rightarrow> b | None \<Rightarrow> False)"
  by (simp add: normalizeUserOptions_def nullish_default_def)

section \<open>Entries\<close>

text \<open>
  C4. \<open>normalizeEntries\<close> leaves an unset value unset, returns a predicate function and a
  sequence of matchers as they are, and wraps a single matcher, a string or a pattern, into
  the one-element sequence holding that matcher. The same holds for the \<open>entries\<close> field of
  the normalized options.
\<close>

theorem normalizeEntries_cases:
  "normalizeEntries None = None
   \<and> normalizeEntries (Some (EntriesFunction f)) = Some (EntriesFunction f)
   \<and> normalizeEntries (Some (EntriesArray ms)) = Some (EntriesArray ms)
   \<and> normalizeEntries (Some (EntriesMatcher (MatcherString s))) = Some (EntriesArray [MatcherString s])
   \<and> normalizeEntries (Some (EntriesMatcher (MatcherRegExp r))) = Some (EntriesArray [MatcherRegExp r])
   \<and> InternalOptions.entries (normalizeUserOptions env userOptions)
       = normalizeEntries (UserOptions.entries userOptions)"
  by (simp add: normalizeUserOptions_def)

end
